theory Spec2Isabelle
  imports Complex_Main
begin

section \<open>Data model (types.ts)\<close>

text \<open>
  JavaScript numbers are modelled as \<^typ>\<open>real\<close>; a value that may be \<open>NaN\<close> is a
  \<^typ>\<open>real option\<close> with \<open>None\<close> for \<open>NaN\<close>. An optional property is an option
  with \<open>None\<close> for \<open>undefined\<close>. Values that arrive from \<open>JSON.parse\<close> keep the
  freedom the code itself allows for: \<open>risk\<close> and \<open>severity\<close> may be missing (the code
  reads them with \<open>?.\<close>), \<open>shape\<close> and \<open>severity\<close> are arbitrary strings.
  The four numbers of a rect are tested with \<open>!= null\<close> in one file and with
  \<open>!== undefined\<close> in another, so they keep \<open>undefined\<close> (the property is missing)
  and \<open>null\<close> apart; \<open>points\<close> is only ever tested for truthiness, where the two
  agree, so \<open>None\<close> stands for both.
  The fields \<open>id\<close>, \<open>x\<close>, \<open>y\<close>, \<open>w\<close>, \<open>h\<close>, \<open>shape\<close>, \<open>points\<close> carry a prefix,
  since a record field is a global constant.
\<close>

datatype js_number = Undefined | Null | Num real

record Risk =
  severity :: "string option"
  likelihood :: "string option"
  reason :: string

record Hazard =
  hazard_id :: string
  hazard :: string
  risk :: "Risk option"
  decide_controls :: "string list"

record Region =
  region_id :: string
  region_shape :: string
  region_x :: js_number
  region_y :: js_number
  region_w :: js_number
  region_h :: js_number
  region_points :: "real list list option"

record SafetyAnalysis =
  caption :: string
  overall_risk :: string
  hazards :: "Hazard list option"
  regions :: "Region list option"
  summary :: string

datatype error = Error string | TypeError | IndexSizeError | SyntaxError

section \<open>Hazard-region synchronisation (geminiService.ts, analyzeImage)\<close>

text \<open>Step 1: \<open>analysis.hazards || []\<close>, \<open>analysis.regions || []\<close>.\<close>

definition or_empty :: "'a list option \<Rightarrow> 'a list" where
  "or_empty xs = (case xs of None \<Rightarrow> [] | Some ys \<Rightarrow> ys)"

text \<open>Step 2: the two \<open>Set\<close>s of ids.\<close>

definition hazardIds :: "Hazard list \<Rightarrow> string set" where
  "hazardIds hs = set (map hazard_id hs)"

definition regionIds :: "Region list \<Rightarrow> string set" where
  "regionIds rs = set (map region_id rs)"

text \<open>Step 3: both lists filtered against the other list's ids.\<close>

definition synchronizedHazards :: "Hazard list \<Rightarrow> Region list \<Rightarrow> Hazard list" where
  "synchronizedHazards hs rs = filter (\<lambda>h. hazard_id h \<in> regionIds rs) hs"

definition synchronizedRegions :: "Hazard list \<Rightarrow> Region list \<Rightarrow> Region list" where
  "synchronizedRegions hs rs = filter (\<lambda>r. region_id r \<in> hazardIds hs) rs"

definition sync :: "Hazard list \<Rightarrow> Region list \<Rightarrow> Hazard list \<times> Region list" where
  "sync hs rs = (synchronizedHazards hs rs, synchronizedRegions hs rs)"

text \<open>Step 4: the object spread \<open>{...analysis, hazards: ..., regions: ...}\<close>.\<close>

definition sanitize :: "SafetyAnalysis \<Rightarrow> SafetyAnalysis" where
  "sanitize analysis =
     (let hs = or_empty (hazards analysis);
          rs = or_empty (regions analysis)
      in analysis\<lparr>hazards := Some (synchronizedHazards hs rs),
                  regions := Some (synchronizedRegions hs rs)\<rparr>)"

text \<open>
  The \<open>try\<close> block of \<open>analyzeImage\<close>, after the network call: the argument is what
  \<open>JSON.parse\<close> gave, \<open>None\<close> when it threw; the \<open>catch\<close> rethrows a fixed message.
\<close>

definition analyzeImage :: "SafetyAnalysis option \<Rightarrow> error + SafetyAnalysis" where
  "analyzeImage parsed =
     (case parsed of
        None \<Rightarrow> Inl (Error ''The analysis returned an invalid format. Please try again.'')
      | Some analysis \<Rightarrow> Inr (sanitize analysis))"


section \<open>Layout metrics (ImageDisplay.tsx, computeMetrics)\<close>

record ImgMetrics =
  naturalW :: real
  naturalH :: real
  drawW :: real
  drawH :: real
  offsetX :: real
  offsetY :: real

text \<open>The initial value of the \<open>metrics\<close> state.\<close>

definition initialMetrics :: ImgMetrics where
  "initialMetrics =
     \<lparr>naturalW = 0, naturalH = 0, drawW = 0, drawH = 0, offsetX = 0, offsetY = 0\<rparr>"

text \<open>
  \<open>computeMetrics\<close> reads two refs and writes the \<open>metrics\<close> state. The first argument
  is \<open>containerRef.current\<close> (\<open>None\<close> for \<open>null\<close>, otherwise the width and height of its
  bounding rectangle), the second is \<open>imgRef.current\<close> (\<open>None\<close> for \<open>null\<close>, otherwise
  \<open>naturalWidth\<close> and \<open>naturalHeight\<close>), the third is the state before the call; the
  result is the state after it. A number is falsy when it is \<open>0\<close>.
\<close>

definition computeMetrics ::
  "(real \<times> real) option \<Rightarrow> (real \<times> real) option \<Rightarrow> ImgMetrics \<Rightarrow> ImgMetrics" where
  "computeMetrics el img metrics =
     (case el of
        None \<Rightarrow> metrics
      | Some (cw, ch) \<Rightarrow>
          (case img of
             None \<Rightarrow> metrics
           | Some (naturalWidth, naturalHeight) \<Rightarrow>
               if naturalWidth = 0 \<or> naturalHeight = 0 then metrics
               else
                 let sx = cw / naturalWidth;
                     sy = ch / naturalHeight;
                     scale = min sx sy;
                     dw = naturalWidth * scale;
                     dh = naturalHeight * scale
                 in \<lparr>naturalW = naturalWidth, naturalH = naturalHeight,
                     drawW = dw, drawH = dh,
                     offsetX = (cw - dw) / 2, offsetY = (ch - dh) / 2\<rparr>))"

subsection \<open>The same computation in double precision\<close>

text \<open>
  \<open>computeMetrics\<close> above computes in exact arithmetic. The program computes in IEEE 754
  binary64 with rounding to nearest, ties to even: every division, product and
  difference is rounded to the nearest double. \<open>fl x\<close> is that double: a multiple of
  \<open>2 ^ (e - 52)\<close>, where \<open>2 ^ e \<le> \<bar>x\<bar> < 2 ^ (e + 1)\<close>, and of \<open>2 ^ (- 1074)\<close> below the
  normal range. Results beyond the largest double (about \<open>2 ^ 1024\<close>) would be infinite
  in the program; they are not modelled, and the properties of \<open>computeMetrics_double\<close>
  are stated for sizes that keep every value far below.
\<close>

definition roundTiesToEven :: "real \<Rightarrow> int" where
  "roundTiesToEven y =
     (let f = \<lfloor>y\<rfloor>; r = y - real_of_int f
      in if r < 1 / 2 then f
         else if 1 / 2 < r then f + 1
         else if even f then f else f + 1)"

definition fl :: "real \<Rightarrow> real" where
  "fl x =
     (if x = 0 then 0
      else
        let e = max \<lfloor>log 2 \<bar>x\<bar>\<rfloor> (- 1022);
            q = 2 powi (e - 52)
        in real_of_int (roundTiesToEven (x / q)) * q)"

text \<open>The rounding error below the normal range, \<open>2 ^ (- 1075)\<close>.\<close>

definition tiny :: real where
  "tiny = 1 / 2 ^ 1075"

text \<open>
  \<open>computeMetrics\<close> with the rounding of each operation; \<open>Math.min\<close> is exact. The
  arguments are as for \<open>computeMetrics\<close>, and are doubles themselves in the program.
\<close>

definition computeMetrics_double ::
  "(real \<times> real) option \<Rightarrow> (real \<times> real) option \<Rightarrow> ImgMetrics \<Rightarrow> ImgMetrics" where
  "computeMetrics_double el img metrics =
     (case el of
        None \<Rightarrow> metrics
      | Some (cw, ch) \<Rightarrow>
          (case img of
             None \<Rightarrow> metrics
           | Some (naturalWidth, naturalHeight) \<Rightarrow>
               if naturalWidth = 0 \<or> naturalHeight = 0 then metrics
               else
                 let sx = fl (cw / naturalWidth);
                     sy = fl (ch / naturalHeight);
                     scale = min sx sy;
                     dw = fl (naturalWidth * scale);
                     dh = fl (naturalHeight * scale)
                 in \<lparr>naturalW = naturalWidth, naturalH = naturalHeight,
                     drawW = dw, drawH = dh,
                     offsetX = fl (fl (cw - dw) / 2), offsetY = fl (fl (ch - dh) / 2)\<rparr>))"

section \<open>Hover and selection (App.tsx, RegionShape, HazardCard)\<close>

text \<open>The two pieces of \<open>App\<close> state the shapes read and write.\<close>

record AppState =
  selectedHazardId :: "string option"
  hoveredHazardId :: "string option"

definition setSelectedHazardId :: "string option \<Rightarrow> AppState \<Rightarrow> AppState" where
  "setSelectedHazardId v s = s\<lparr>selectedHazardId := v\<rparr>"

definition setHoveredHazardId :: "string option \<Rightarrow> AppState \<Rightarrow> AppState" where
  "setHoveredHazardId v s = s\<lparr>hoveredHazardId := v\<rparr>"

text \<open>The props \<open>isSelected\<close> and \<open>isHovered\<close> that \<open>ImageDisplay\<close> passes to a shape.\<close>

definition isSelected :: "AppState \<Rightarrow> string \<Rightarrow> bool" where
  "isSelected s rid = (selectedHazardId s = Some rid)"

definition isHovered :: "AppState \<Rightarrow> string \<Rightarrow> bool" where
  "isHovered s rid = (hoveredHazardId s = Some rid)"

definition selected_set :: "AppState \<Rightarrow> string set" where
  "selected_set s = {rid. isSelected s rid}"

definition hovered_set :: "AppState \<Rightarrow> string set" where
  "hovered_set s = {rid. isHovered s rid}"

text \<open>
  A click event carries the flag that \<open>e.stopPropagation()\<close> sets. The handlers of a
  shape with id \<open>rid\<close>, and the \<open>onClick\<close> of the enclosing \<open>svg\<close>.
\<close>

record MouseEvent =
  propagationStopped :: bool

definition shape_onMouseEnter :: "string \<Rightarrow> AppState \<Rightarrow> AppState" where
  "shape_onMouseEnter rid s = setHoveredHazardId (Some rid) s"

definition shape_onMouseLeave :: "string \<Rightarrow> AppState \<Rightarrow> AppState" where
  "shape_onMouseLeave rid s = setHoveredHazardId None s"

definition shape_onClick :: "string \<Rightarrow> MouseEvent \<times> AppState \<Rightarrow> MouseEvent \<times> AppState" where
  "shape_onClick rid es =
     (case es of (e, s) \<Rightarrow>
        (e\<lparr>propagationStopped := True\<rparr>, setSelectedHazardId (Some rid) s))"

definition svg_onClick :: "AppState \<Rightarrow> AppState" where
  "svg_onClick s = setSelectedHazardId None s"

text \<open>
  A click that hits a shape runs the shape's handler and then, unless propagation was
  stopped, bubbles to the \<open>svg\<close>; a click that hits no shape runs the \<open>svg\<close> handler only.
\<close>

definition click_on_shape :: "string \<Rightarrow> AppState \<Rightarrow> AppState" where
  "click_on_shape rid s =
     (case shape_onClick rid (\<lparr>propagationStopped = False\<rparr>, s) of
        (e, s') \<Rightarrow> if propagationStopped e then s' else svg_onClick s')"

definition click_on_background :: "AppState \<Rightarrow> AppState" where
  "click_on_background s = svg_onClick s"

datatype pointer_event =
  PointerEnter string | PointerLeave string | ClickShape string | ClickBackground

fun handle :: "pointer_event \<Rightarrow> AppState \<Rightarrow> AppState" where
  "handle (PointerEnter rid) s = shape_onMouseEnter rid s"
| "handle (PointerLeave rid) s = shape_onMouseLeave rid s"
| "handle (ClickShape rid) s = click_on_shape rid s"
| "handle ClickBackground s = click_on_background s"

text \<open>The state after a sequence of events, starting from \<open>App\<close>'s initial state.\<close>

definition initialApp :: AppState where
  "initialApp = \<lparr>selectedHazardId = None, hoveredHazardId = None\<rparr>"

definition run :: "pointer_event list \<Rightarrow> AppState \<Rightarrow> AppState" where
  "run evs s = fold handle evs s"


section \<open>Heatmap (ImageDisplay.tsx, the canvas effect)\<close>

datatype ViewMode = RegionsView | HeatmapView

type_synonym rgb = "nat \<times> nat \<times> nat"

text \<open>
  The own keys of the table \<open>heatRGB\<close>. Any other key gives no colour triple: it
  reads \<open>undefined\<close>, unless it names a member that the object literal inherits from
  \<open>Object.prototype\<close>, which reads that member.
\<close>

definition heatRGB :: "string \<Rightarrow> rgb option" where
  "heatRGB k =
     (if k = ''HIGH'' then Some (239, 68, 68)
      else if k = ''MEDIUM'' then Some (245, 158, 11)
      else if k = ''LOW'' then Some (34, 197, 94)
      else None)"

definition inherited_key :: "string \<Rightarrow> bool" where
  "inherited_key k \<longleftrightarrow>
     k \<in> set [''constructor'', ''__proto__'', ''hasOwnProperty'', ''isPrototypeOf'',
               ''propertyIsEnumerable'', ''toLocaleString'', ''toString'', ''valueOf'',
               ''__defineGetter__'', ''__defineSetter__'', ''__lookupGetter__'',
               ''__lookupSetter__'']"

text \<open>\<open>hz.risk?.severity\<close>: \<open>undefined\<close> when the risk or its severity is missing.\<close>

definition risk_severity :: "Hazard \<Rightarrow> string option" where
  "risk_severity hz = (case risk hz of None \<Rightarrow> None | Some r \<Rightarrow> severity r)"

text \<open>\<open>hz.risk?.severity || 'MEDIUM'\<close>: the empty string is falsy too.\<close>

definition severity_or_medium :: "Hazard \<Rightarrow> string" where
  "severity_or_medium hz =
     (case risk_severity hz of
        None \<Rightarrow> ''MEDIUM''
      | Some k \<Rightarrow> if k = [] then ''MEDIUM'' else k)"

definition logicalRadius :: "ImgMetrics \<Rightarrow> Hazard \<Rightarrow> real" where
  "logicalRadius metrics hz =
     (if risk_severity hz = Some ''HIGH'' then drawW metrics * 0.25
      else if risk_severity hz = Some ''MEDIUM'' then drawW metrics * 0.18
      else drawW metrics * 0.12)"

text \<open>
  Reading coordinate \<open>i\<close> of a point (\<open>p[i]\<close>, \<open>undefined\<close> past the end) and
  multiplying it; \<open>undefined * k\<close> is \<open>NaN\<close>.
\<close>

definition coord :: "real list \<Rightarrow> nat \<Rightarrow> real option" where
  "coord p i = (if i < length p then Some (p ! i) else None)"

definition js_mul :: "real option \<Rightarrow> real \<Rightarrow> real option" where
  "js_mul a k = map_option (\<lambda>v. v * k) a"

text \<open>\<open>Math.min\<close> and \<open>Math.max\<close> of one or more arguments: \<open>NaN\<close> if any argument is.\<close>

definition nan_min :: "real option \<Rightarrow> real option \<Rightarrow> real option" where
  "nan_min a b = (case a of None \<Rightarrow> None | Some u \<Rightarrow> map_option (min u) b)"

definition nan_max :: "real option \<Rightarrow> real option \<Rightarrow> real option" where
  "nan_max a b = (case a of None \<Rightarrow> None | Some u \<Rightarrow> map_option (max u) b)"

definition Math_min :: "real option \<Rightarrow> real option list \<Rightarrow> real option" where
  "Math_min v vs = fold nan_min vs v"

definition Math_max :: "real option \<Rightarrow> real option list \<Rightarrow> real option" where
  "Math_max v vs = fold nan_max vs v"

definition midpoint_js :: "real option \<Rightarrow> real option \<Rightarrow> real option" where
  "midpoint_js a b =
     (case a of None \<Rightarrow> None | Some u \<Rightarrow> map_option (\<lambda>v. (u + v) / 2) b)"

text \<open>
  The four numbers of a rect when each passes \<open>!= null\<close>, that is, is neither
  \<open>null\<close> nor \<open>undefined\<close>.
\<close>

definition rect_fields :: "Region \<Rightarrow> (real \<times> real \<times> real \<times> real) option" where
  "rect_fields r =
     (case region_x r of Num x \<Rightarrow>
        (case region_y r of Num y \<Rightarrow>
           (case region_w r of Num w \<Rightarrow>
              (case region_h r of Num h \<Rightarrow> Some (x, y, w, h) | _ \<Rightarrow> None)
            | _ \<Rightarrow> None)
         | _ \<Rightarrow> None)
      | _ \<Rightarrow> None)"

text \<open>\<open>centerOf\<close>: \<open>None\<close> is the \<open>null\<close> result; a coordinate \<open>None\<close> is \<open>NaN\<close>.\<close>

definition centerOf :: "ImgMetrics \<Rightarrow> Region \<Rightarrow> (real option \<times> real option) option" where
  "centerOf metrics r =
     (if region_shape r = ''rect'' \<and> rect_fields r \<noteq> None then
        (case rect_fields r of
           None \<Rightarrow> None
         | Some (x, y, w, h) \<Rightarrow>
             Some (Some ((x + w / 2) * drawW metrics), Some ((y + h / 2) * drawH metrics)))
      else if region_shape r = ''poly'' then
        (case region_points r of
           None \<Rightarrow> None
         | Some [] \<Rightarrow> None
         | Some (p # ps) \<Rightarrow>
             let xs = map (\<lambda>q. js_mul (coord q 0) (drawW metrics)) (p # ps);
                 ys = map (\<lambda>q. js_mul (coord q 1) (drawH metrics)) (p # ps);
                 minX = Math_min (hd xs) (tl xs); maxX = Math_max (hd xs) (tl xs);
                 minY = Math_min (hd ys) (tl ys); maxY = Math_max (hd ys) (tl ys)
             in Some (midpoint_js minX maxX, midpoint_js minY maxY))
      else None)"

text \<open>
  One radial gradient painted on the canvas: centre, inner and outer radius, and the
  colour of both stops (alpha 0.8 at stop 0, alpha 0 at stop 1).
\<close>

record HeatBlob =
  blob_cx :: real
  blob_cy :: real
  blob_r0 :: real
  blob_radius :: real
  blob_rgb :: rgb


text \<open>
  The body of \<open>analysis.hazards.forEach\<close> for one hazard: \<open>Inr None\<close> when it returns
  without painting. \<open>createRadialGradient\<close> throws a \<open>TypeError\<close> on a non-finite
  argument and an \<open>IndexSizeError\<close> on a negative radius; \<open>rgba\<close> indexes its argument,
  which throws a \<open>TypeError\<close> on \<open>undefined\<close>; on an inherited member it gives the text
  \<open>rgba(undefined,undefined,undefined,0.8)\<close>, which \<open>addColorStop\<close> rejects with a
  \<open>SyntaxError\<close>.
\<close>

definition paintHazard ::
  "ImgMetrics \<Rightarrow> real \<Rightarrow> Region list \<Rightarrow> Hazard \<Rightarrow> error + HeatBlob option" where
  "paintHazard metrics dpr rs hz =
     (case find (\<lambda>r. region_id r = hazard_id hz) rs of
        None \<Rightarrow> Inr None
      | Some region \<Rightarrow>
          (case centerOf metrics region of
             None \<Rightarrow> Inr None
           | Some (c_x, c_y) \<Rightarrow>
               let rgb = heatRGB (severity_or_medium hz);
                   cx = js_mul c_x dpr;
                   cy = js_mul c_y dpr;
                   radius = logicalRadius metrics hz * dpr
               in (case cx of None \<Rightarrow> Inl TypeError | Some cx' \<Rightarrow>
                  (case cy of None \<Rightarrow> Inl TypeError | Some cy' \<Rightarrow>
                     if radius < 0 then Inl IndexSizeError
                     else
                       (case rgb of
                          None \<Rightarrow>
                            if inherited_key (severity_or_medium hz) then Inl SyntaxError
                            else Inl TypeError
                        | Some c \<Rightarrow>
                            Inr (Some \<lparr>blob_cx = cx', blob_cy = cy', blob_r0 = radius * 0.05,
                                       blob_radius = radius, blob_rgb = c\<rparr>))))))"






section \<open>Mask generator (utils.ts, createMaskFromRegion)\<close>

datatype tone = Black | White

text \<open>
  What the function paints, in order: a filled rectangle (\<open>fillRect\<close>) or a filled
  closed path (\<open>beginPath\<close>, \<open>moveTo\<close>, \<open>lineTo\<close> ..., \<open>closePath\<close>, \<open>fill\<close>), each in
  the \<open>fillStyle\<close> current at that moment. A path vertex may have \<open>NaN\<close> coordinates.
\<close>

datatype paint =
  FillRect tone real real real real
| FillPath tone "(real option \<times> real option) list"

record MaskCanvas =
  mask_width :: nat
  mask_height :: nat
  mask_ops :: "paint list"

text \<open>The \<open>for\<close> loop over \<open>points[1..]\<close>, one \<open>lineTo\<close> per point.\<close>

primrec lineTos :: "real list list \<Rightarrow> real \<Rightarrow> real \<Rightarrow> (real option \<times> real option) list" where
  "lineTos [] width height = []"
| "lineTos (p # ps) width height =
     (js_mul (coord p 0) width, js_mul (coord p 1) height) # lineTos ps width height"

text \<open>
  The number that \<open>region.x * width\<close> makes of \<open>region.x\<close>: \<open>null\<close> counts as 0 and
  \<open>undefined\<close> as \<open>NaN\<close>. \<open>fillRect\<close> paints nothing when an argument is \<open>NaN\<close>.
\<close>

definition number_of :: "js_number \<Rightarrow> real option" where
  "number_of v = (case v of Undefined \<Rightarrow> None | Null \<Rightarrow> Some 0 | Num a \<Rightarrow> Some a)"

definition fillRect ::
  "tone \<Rightarrow> real option \<Rightarrow> real option \<Rightarrow> real option \<Rightarrow> real option \<Rightarrow> paint list" where
  "fillRect t x y w h =
     (case x of None \<Rightarrow> [] | Some a \<Rightarrow>
     (case y of None \<Rightarrow> [] | Some b \<Rightarrow>
     (case w of None \<Rightarrow> [] | Some c \<Rightarrow>
     (case h of None \<Rightarrow> [] | Some d \<Rightarrow> [FillRect t a b c d]))))"

text \<open>
  The first argument says whether \<open>getContext('2d')\<close> gives a context. \<open>width\<close> and
  \<open>height\<close> are the \<open>naturalWidth\<close> and \<open>naturalHeight\<close> of an image, so naturals.
  The rect branch tests its four numbers with \<open>!== undefined\<close>, which \<open>null\<close> passes.
  \<open>region.points[0][0]\<close> throws a \<open>TypeError\<close> when \<open>points\<close> is empty. The result
  stands for the canvas that \<open>toDataURL\<close> encodes.
\<close>

definition createMaskFromRegion :: "bool \<Rightarrow> Region \<Rightarrow> nat \<Rightarrow> nat \<Rightarrow> error + MaskCanvas" where
  "createMaskFromRegion has_ctx region width height =
     (if \<not> has_ctx then Inl (Error ''Could not get canvas context'')
      else
        let background = [FillRect Black 0 0 (real width) (real height)];
            canvas = \<lparr>mask_width = width, mask_height = height, mask_ops = background\<rparr>
        in if region_shape region = ''rect'' \<and> region_x region \<noteq> Undefined \<and>
              region_y region \<noteq> Undefined \<and> region_w region \<noteq> Undefined \<and>
              region_h region \<noteq> Undefined then
             Inr (canvas\<lparr>mask_ops := background @
                    fillRect White
                      (js_mul (number_of (region_x region)) (real width))
                      (js_mul (number_of (region_y region)) (real height))
                      (js_mul (number_of (region_w region)) (real width))
                      (js_mul (number_of (region_h region)) (real height))\<rparr>)
           else if region_shape region = ''poly'' \<and> region_points region \<noteq> None then
             (case region_points region of
                None \<Rightarrow> Inr canvas
              | Some [] \<Rightarrow> Inl TypeError
              | Some (p # ps) \<Rightarrow>
                  Inr (canvas\<lparr>mask_ops := background @
                         [FillPath White
                            ((js_mul (coord p 0) (real width), js_mul (coord p 1) (real height))
                             # lineTos ps (real width) (real height))]\<rparr>))
           else Inr canvas)"

text \<open>
  Which tone a sample point has after the paints, later paints over earlier ones;
  \<open>None\<close> where nothing was painted. A rectangle covers the points between its
  corners; a path covers the points of non-zero winding number, its vertices with a
  \<open>NaN\<close> coordinate being dropped as the canvas drops them.
\<close>

definition in_rect :: "real \<Rightarrow> real \<Rightarrow> real \<Rightarrow> real \<Rightarrow> real \<times> real \<Rightarrow> bool" where
  "in_rect x y w h pt =
     (case pt of (px, py) \<Rightarrow>
        min x (x + w) \<le> px \<and> px < max x (x + w) \<and> min y (y + h) \<le> py \<and> py < max y (y + h))"

fun finite_points :: "(real option \<times> real option) list \<Rightarrow> (real \<times> real) list" where
  "finite_points [] = []"
| "finite_points ((Some a, Some b) # vs) = (a, b) # finite_points vs"
| "finite_points (_ # vs) = finite_points vs"

definition crossing :: "real \<times> real \<Rightarrow> real \<times> real \<Rightarrow> real \<times> real \<Rightarrow> int" where
  "crossing pt a b =
     (case pt of (px, py) \<Rightarrow> case a of (ax, ay) \<Rightarrow> case b of (bx, by) \<Rightarrow>
        let side = (bx - ax) * (py - ay) - (px - ax) * (by - ay)
        in if ay \<le> py \<and> py < by \<and> 0 < side then 1
           else if by \<le> py \<and> py < ay \<and> side < 0 then - 1
           else 0)"

fun winding :: "real \<times> real \<Rightarrow> real \<times> real \<Rightarrow> (real \<times> real) list \<Rightarrow> int" where
  "winding pt first [] = 0"
| "winding pt first [a] = crossing pt a first"
| "winding pt first (a # b # vs) = crossing pt a b + winding pt first (b # vs)"

definition in_path :: "(real option \<times> real option) list \<Rightarrow> real \<times> real \<Rightarrow> bool" where
  "in_path vs pt =
     (case finite_points vs of [] \<Rightarrow> False | a # as \<Rightarrow> winding pt a (a # as) \<noteq> 0)"

fun tone_at :: "paint list \<Rightarrow> real \<times> real \<Rightarrow> tone option" where
  "tone_at [] pt = None"
| "tone_at (FillRect t x y w h # ops) pt =
     (case tone_at ops pt of
        Some t' \<Rightarrow> Some t'
      | None \<Rightarrow> if in_rect x y w h pt then Some t else None)"
| "tone_at (FillPath t vs # ops) pt =
     (case tone_at ops pt of
        Some t' \<Rightarrow> Some t'
      | None \<Rightarrow> if in_path vs pt then Some t else None)"

text \<open>The tone of pixel \<open>(i, j)\<close> of the mask, sampled at the pixel's centre.\<close>

definition pixel :: "MaskCanvas \<Rightarrow> nat \<Rightarrow> nat \<Rightarrow> tone option" where
  "pixel c i j =
     (if i < mask_width c \<and> j < mask_height c
      then tone_at (mask_ops c) (real i + 1 / 2, real j + 1 / 2)
      else None)"

text \<open>The requested mask whose every pixel is the background tone.\<close>

definition all_background :: "MaskCanvas \<Rightarrow> nat \<Rightarrow> nat \<Rightarrow> bool" where
  "all_background c width height \<longleftrightarrow>
     mask_width c = width \<and> mask_height c = height \<and>
     (\<forall>i < width. \<forall>j < height. pixel c i j = Some Black)"

section \<open>Properties of the synchronisation\<close>

lemma sync_ids_eq:
  "hazard_id ` set (synchronizedHazards hs rs) = region_id ` set (synchronizedRegions hs rs)"
proof (intro set_eqI iffI)
  fix i assume "i \<in> hazard_id ` set (synchronizedHazards hs rs)"
  then obtain h where h: "h \<in> set hs" "hazard_id h \<in> regionIds rs" "i = hazard_id h"
    by (auto simp: synchronizedHazards_def)
  then obtain r where r: "r \<in> set rs" "region_id r = hazard_id h"
    by (auto simp: regionIds_def)
  with h have "r \<in> set (synchronizedRegions hs rs)"
    by (simp add: synchronizedRegions_def hazardIds_def)
  with r h show "i \<in> region_id ` set (synchronizedRegions hs rs)"
    by force
next
  fix i assume "i \<in> region_id ` set (synchronizedRegions hs rs)"
  then obtain r where r: "r \<in> set rs" "region_id r \<in> hazardIds hs" "i = region_id r"
    by (auto simp: synchronizedRegions_def)
  then obtain h where h: "h \<in> set hs" "hazard_id h = region_id r"
    by (auto simp: hazardIds_def)
  with r have "h \<in> set (synchronizedHazards hs rs)"
    by (simp add: synchronizedHazards_def regionIds_def)
  with r h show "i \<in> hazard_id ` set (synchronizedHazards hs rs)"
    by force
qed

lemma synchronizedHazards_again:
  "synchronizedHazards (synchronizedHazards hs rs) (synchronizedRegions hs rs)
   = synchronizedHazards hs rs"
  unfolding synchronizedHazards_def synchronizedRegions_def hazardIds_def regionIds_def
  by (rule filter_True) force

lemma synchronizedRegions_again:
  "synchronizedRegions (synchronizedHazards hs rs) (synchronizedRegions hs rs)
   = synchronizedRegions hs rs"
  unfolding synchronizedHazards_def synchronizedRegions_def hazardIds_def regionIds_def
  by (rule filter_True) force

lemma sanitize_fields:
  "hazards (sanitize a) = Some (synchronizedHazards (or_empty (hazards a)) (or_empty (regions a)))"
  "regions (sanitize a) = Some (synchronizedRegions (or_empty (hazards a)) (or_empty (regions a)))"
  by (simp_all add: sanitize_def Let_def)

text \<open>
  Claim C2. For any hazards and regions, the synchronised hazards are exactly the input
  hazards whose id is the id of some input region, the synchronised regions are exactly
  the input regions whose id is the id of some input hazard, both outputs have the same
  set of ids, and one output is empty if and only if the other is. \<open>analyzeImage\<close>
  returns the parsed analysis with exactly these two lists.
\<close>

theorem sync_matching_ids:
  assumes "sync hs rs = (hs', rs')"
  shows "hs' = filter (\<lambda>h. hazard_id h \<in> set (map region_id rs)) hs \<and>
         rs' = filter (\<lambda>r. region_id r \<in> set (map hazard_id hs)) rs \<and>
         set (map hazard_id hs') = set (map region_id rs') \<and>
         (hs' = [] \<longleftrightarrow> rs' = []) \<and>
         analyzeImage (Some (a\<lparr>hazards := Some hs, regions := Some rs\<rparr>))
           = Inr (a\<lparr>hazards := Some hs', regions := Some rs'\<rparr>)"
proof -
  from assms have h: "hs' = synchronizedHazards hs rs" and r: "rs' = synchronizedRegions hs rs"
    by (simp_all add: sync_def)
  have f: "hs' = filter (\<lambda>h. hazard_id h \<in> set (map region_id rs)) hs"
    by (simp add: h synchronizedHazards_def regionIds_def)
  have g: "rs' = filter (\<lambda>r. region_id r \<in> set (map hazard_id hs)) rs"
    by (simp add: r synchronizedRegions_def hazardIds_def)
  have ids: "set (map hazard_id hs') = set (map region_id rs')"
    by (simp add: h r sync_ids_eq)
  have e: "hs' = [] \<longleftrightarrow> rs' = []"
    using ids by (cases hs'; cases rs') auto
  have "analyzeImage (Some (a\<lparr>hazards := Some hs, regions := Some rs\<rparr>))
         = Inr (a\<lparr>hazards := Some hs', regions := Some rs'\<rparr>)"
    by (simp add: analyzeImage_def sanitize_def or_empty_def h r)
  with f g ids e show ?thesis by blast
qed

theorem sync_matching_ids_witness:
  "sync
     [\<lparr>hazard_id = ''H1'', hazard = ''spill'', risk = None, decide_controls = []\<rparr>,
      \<lparr>hazard_id = ''H2'', hazard = ''cable'', risk = None, decide_controls = []\<rparr>]
     [\<lparr>region_id = ''H2'', region_shape = ''rect'', region_x = Num 0, region_y = Num 0,
       region_w = Num 1, region_h = Num 1, region_points = None\<rparr>,
      \<lparr>region_id = ''H3'', region_shape = ''rect'', region_x = Num 0, region_y = Num 0,
       region_w = Num 1, region_h = Num 1, region_points = None\<rparr>]
   = ([\<lparr>hazard_id = ''H2'', hazard = ''cable'', risk = None, decide_controls = []\<rparr>],
      [\<lparr>region_id = ''H2'', region_shape = ''rect'', region_x = Num 0, region_y = Num 0,
        region_w = Num 1, region_h = Num 1, region_points = None\<rparr>])
   \<and> set (map hazard_id
        [\<lparr>hazard_id = ''H2'', hazard = ''cable'', risk = None, decide_controls = []\<rparr>])
     = set (map region_id
        [\<lparr>region_id = ''H2'', region_shape = ''rect'', region_x = Num 0, region_y = Num 0,
          region_w = Num 1, region_h = Num 1, region_points = None\<rparr>])"
proof -
  have s: "sync
     [\<lparr>hazard_id = ''H1'', hazard = ''spill'', risk = None, decide_controls = []\<rparr>,
      \<lparr>hazard_id = ''H2'', hazard = ''cable'', risk = None, decide_controls = []\<rparr>]
     [\<lparr>region_id = ''H2'', region_shape = ''rect'', region_x = Num 0, region_y = Num 0,
       region_w = Num 1, region_h = Num 1, region_points = None\<rparr>,
      \<lparr>region_id = ''H3'', region_shape = ''rect'', region_x = Num 0, region_y = Num 0,
       region_w = Num 1, region_h = Num 1, region_points = None\<rparr>]
   = ([\<lparr>hazard_id = ''H2'', hazard = ''cable'', risk = None, decide_controls = []\<rparr>],
      [\<lparr>region_id = ''H2'', region_shape = ''rect'', region_x = Num 0, region_y = Num 0,
        region_w = Num 1, region_h = Num 1, region_points = None\<rparr>])"
    by (simp add: sync_def synchronizedHazards_def synchronizedRegions_def regionIds_def
        hazardIds_def)
  from sync_matching_ids [OF s] s show ?thesis by blast
qed

text \<open>
  Claim C7, as the code has it. After synchronisation the set of hazard ids equals the
  set of region ids. The filter removes no duplicate: an output list has pairwise
  distinct ids whenever the corresponding input list has.
\<close>

theorem sync_invariant:
  "(case sync hs rs of (hs', rs') \<Rightarrow>
      set (map hazard_id hs') = set (map region_id rs') \<and>
      (distinct (map hazard_id hs) \<longrightarrow> distinct (map hazard_id hs')) \<and>
      (distinct (map region_id rs) \<longrightarrow> distinct (map region_id rs')))"
  by (simp add: sync_def sync_ids_eq)
    (simp add: synchronizedHazards_def synchronizedRegions_def distinct_map_filter)

theorem sync_invariant_witness:
  "distinct (map hazard_id
      [\<lparr>hazard_id = ''H1'', hazard = ''spill'', risk = None, decide_controls = []\<rparr>,
       \<lparr>hazard_id = ''H2'', hazard = ''cable'', risk = None, decide_controls = []\<rparr>]) \<and>
   distinct (map region_id
      [\<lparr>region_id = ''H2'', region_shape = ''poly'', region_x = Undefined, region_y = Undefined,
        region_w = Undefined, region_h = Undefined, region_points = Some [[0, 0], [1, 0], [1, 1]]\<rparr>,
       \<lparr>region_id = ''H3'', region_shape = ''rect'', region_x = Num 0, region_y = Num 0,
        region_w = Num 1, region_h = Num 1, region_points = None\<rparr>]) \<and>
   (case sync
      [\<lparr>hazard_id = ''H1'', hazard = ''spill'', risk = None, decide_controls = []\<rparr>,
       \<lparr>hazard_id = ''H2'', hazard = ''cable'', risk = None, decide_controls = []\<rparr>]
      [\<lparr>region_id = ''H2'', region_shape = ''poly'', region_x = Undefined, region_y = Undefined,
        region_w = Undefined, region_h = Undefined, region_points = Some [[0, 0], [1, 0], [1, 1]]\<rparr>,
       \<lparr>region_id = ''H3'', region_shape = ''rect'', region_x = Num 0, region_y = Num 0,
        region_w = Num 1, region_h = Num 1, region_points = None\<rparr>]
    of (hs', rs') \<Rightarrow>
      set (map hazard_id hs') = {''H2''} \<and> set (map region_id rs') = {''H2''} \<and>
      distinct (map hazard_id hs') \<and> distinct (map region_id rs'))"
  using sync_invariant
    [of "[\<lparr>hazard_id = ''H1'', hazard = ''spill'', risk = None, decide_controls = []\<rparr>,
          \<lparr>hazard_id = ''H2'', hazard = ''cable'', risk = None, decide_controls = []\<rparr>]"
        "[\<lparr>region_id = ''H2'', region_shape = ''poly'', region_x = Undefined, region_y = Undefined,
           region_w = Undefined, region_h = Undefined, region_points = Some [[0, 0], [1, 0], [1, 1]]\<rparr>,
          \<lparr>region_id = ''H3'', region_shape = ''rect'', region_x = Num 0, region_y = Num 0,
           region_w = Num 1, region_h = Num 1, region_points = None\<rparr>]"]
  by (simp add: sync_def synchronizedHazards_def synchronizedRegions_def regionIds_def
      hazardIds_def)

text \<open>
  The claim C7 as stated fails: two input hazards with the same id, matched by a region,
  are both kept.
\<close>

theorem sync_duplicates_counterexample:
  "\<not> distinct (map hazard_id (fst (sync
       [\<lparr>hazard_id = ''H1'', hazard = ''spill'', risk = None, decide_controls = []\<rparr>,
        \<lparr>hazard_id = ''H1'', hazard = ''cable'', risk = None, decide_controls = []\<rparr>]
       [\<lparr>region_id = ''H1'', region_shape = ''rect'', region_x = Num 0, region_y = Num 0,
         region_w = Num 1, region_h = Num 1, region_points = None\<rparr>])))"
  by (simp add: sync_def synchronizedHazards_def regionIds_def)

text \<open>
  Claim C8. Synchronising the synchronised lists changes nothing, for the pair of lists
  and for the whole analysis; \<open>analyzeImage\<close> returns a value on every parsed analysis;
  and when no hazard id is a region id both output lists are empty.
\<close>

theorem sync_idempotent:
  "(case sync hs rs of (hs', rs') \<Rightarrow> sync hs' rs') = sync hs rs \<and>
   sanitize (sanitize a) = sanitize a \<and>
   (\<exists>a'. analyzeImage (Some a) = Inr a') \<and>
   (hazardIds hs \<inter> regionIds rs = {} \<longrightarrow> sync hs rs = ([], []))"
proof (intro conjI)
  show "(case sync hs rs of (hs', rs') \<Rightarrow> sync hs' rs') = sync hs rs"
    by (simp add: sync_def synchronizedHazards_again synchronizedRegions_again)
  show "sanitize (sanitize a) = sanitize a"
    by (simp add: sanitize_def Let_def or_empty_def synchronizedHazards_again
        synchronizedRegions_again)
  show "\<exists>a'. analyzeImage (Some a) = Inr a'"
    by (simp add: analyzeImage_def)
  show "hazardIds hs \<inter> regionIds rs = {} \<longrightarrow> sync hs rs = ([], [])"
    by (auto simp: sync_def synchronizedHazards_def synchronizedRegions_def hazardIds_def
        regionIds_def filter_empty_conv)
qed

theorem sync_idempotent_witness:
  "hazardIds [\<lparr>hazard_id = ''H1'', hazard = ''spill'', risk = None, decide_controls = []\<rparr>]
     \<inter> regionIds [\<lparr>region_id = ''H3'', region_shape = ''rect'', region_x = Num 0,
          region_y = Num 0, region_w = Num 1, region_h = Num 1, region_points = None\<rparr>] = {}
   \<and> sync [\<lparr>hazard_id = ''H1'', hazard = ''spill'', risk = None, decide_controls = []\<rparr>]
        [\<lparr>region_id = ''H3'', region_shape = ''rect'', region_x = Num 0,
          region_y = Num 0, region_w = Num 1, region_h = Num 1, region_points = None\<rparr>]
     = ([], [])"
proof -
  have d: "hazardIds
      [\<lparr>hazard_id = ''H1'', hazard = ''spill'', risk = None, decide_controls = []\<rparr>]
     \<inter> regionIds [\<lparr>region_id = ''H3'', region_shape = ''rect'', region_x = Num 0,
          region_y = Num 0, region_w = Num 1, region_h = Num 1, region_points = None\<rparr>] = {}"
    by (simp add: hazardIds_def regionIds_def)
  from sync_idempotent
    [of "[\<lparr>hazard_id = ''H1'', hazard = ''spill'', risk = None, decide_controls = []\<rparr>]"
        "[\<lparr>region_id = ''H3'', region_shape = ''rect'', region_x = Num 0,
          region_y = Num 0, region_w = Num 1, region_h = Num 1, region_points = None\<rparr>]"]
    d show ?thesis by blast
qed

section \<open>Properties of the layout\<close>

lemma fit_scale_bounds:
  fixes cw ch nw nh :: real
  assumes "0 < nw" "0 < nh"
  shows "nw * min (cw / nw) (ch / nh) \<le> cw"
    and "nh * min (cw / nw) (ch / nh) \<le> ch"
    and "nw * min (cw / nw) (ch / nh) = cw \<or> nh * min (cw / nw) (ch / nh) = ch"
proof -
  have a: "nw * (cw / nw) = cw" and b: "nh * (ch / nh) = ch"
    using assms by simp_all
  have "nw * min (cw / nw) (ch / nh) \<le> nw * (cw / nw)"
    using assms by (intro mult_left_mono) simp_all
  then show "nw * min (cw / nw) (ch / nh) \<le> cw" by (simp only: a)
  have "nh * min (cw / nw) (ch / nh) \<le> nh * (ch / nh)"
    using assms by (intro mult_left_mono) simp_all
  then show "nh * min (cw / nw) (ch / nh) \<le> ch" by (simp only: b)
  show "nw * min (cw / nw) (ch / nh) = cw \<or> nh * min (cw / nw) (ch / nh) = ch"
  proof (cases "cw / nw \<le> ch / nh")
    case True
    then have "min (cw / nw) (ch / nh) = cw / nw" by simp
    then show ?thesis using a by simp
  next
    case False
    then have "min (cw / nw) (ch / nh) = ch / nh" by simp
    then show ?thesis using b by simp
  qed
qed

lemma computeMetrics_ready:
  "nw \<noteq> 0 \<Longrightarrow> nh \<noteq> 0 \<Longrightarrow>
   computeMetrics (Some (cw, ch)) (Some (nw, nh)) prev =
     \<lparr>naturalW = nw, naturalH = nh,
      drawW = nw * min (cw / nw) (ch / nh), drawH = nh * min (cw / nw) (ch / nh),
      offsetX = (cw - nw * min (cw / nw) (ch / nh)) / 2,
      offsetY = (ch - nh * min (cw / nw) (ch / nh)) / 2\<rparr>"
  by (simp add: computeMetrics_def Let_def)

text \<open>
  In exact arithmetic the drawn image fits the container, fills it in at least one
  direction, and both offsets are non-negative.
\<close>

lemma computeMetrics_exact_fit:
  assumes "0 < cw" and "0 < ch" and "0 < nw" and "0 < nh"
  shows "(let m = computeMetrics (Some (cw, ch)) (Some (nw, nh)) prev;
              scale = min (cw / nw) (ch / nh)
          in drawW m = nw * scale \<and> drawH m = nh * scale \<and>
             offsetX m = (cw - drawW m) / 2 \<and> offsetY m = (ch - drawH m) / 2 \<and>
             drawW m \<le> cw \<and> drawH m \<le> ch \<and> (drawW m = cw \<or> drawH m = ch) \<and>
             0 \<le> offsetX m \<and> 0 \<le> offsetY m)"
proof -
  have ne: "nw \<noteq> 0" "nh \<noteq> 0" using assms by simp_all
  note b = fit_scale_bounds [OF assms(3) assms(4), of cw ch]
  show ?thesis
    unfolding Let_def computeMetrics_ready [OF ne]
    using b by simp
qed

text \<open>
  Claim C4, as the code has it. \<open>computeMetrics\<close> leaves the metrics as they were when
  the container element or the image is missing or when the natural width or height
  is zero. A container of zero width or height is not such a case: with positive
  natural sizes new metrics are stored, with a drawn size of zero and the offsets at
  half the container's size. Every division is by a natural size that is not zero.
\<close>

theorem computeMetrics_not_ready:
  "computeMetrics None img prev = prev \<and>
   computeMetrics el None prev = prev \<and>
   computeMetrics el (Some (0, nh)) prev = prev \<and>
   computeMetrics el (Some (nw, 0)) prev = prev \<and>
   (0 < nw \<and> 0 < nh \<and> 0 \<le> cw \<and> 0 \<le> ch \<and> (cw = 0 \<or> ch = 0) \<longrightarrow>
      computeMetrics (Some (cw, ch)) (Some (nw, nh)) prev =
        \<lparr>naturalW = nw, naturalH = nh, drawW = 0, drawH = 0,
         offsetX = cw / 2, offsetY = ch / 2\<rparr>)"
proof (intro conjI impI)
  show "computeMetrics None img prev = prev"
    by (simp add: computeMetrics_def)
  show "computeMetrics el None prev = prev"
    by (simp add: computeMetrics_def split: option.splits prod.splits)
  show "computeMetrics el (Some (0, nh)) prev = prev"
    by (simp add: computeMetrics_def split: option.splits prod.splits)
  show "computeMetrics el (Some (nw, 0)) prev = prev"
    by (simp add: computeMetrics_def split: option.splits prod.splits)
next
  assume a: "0 < nw \<and> 0 < nh \<and> 0 \<le> cw \<and> 0 \<le> ch \<and> (cw = 0 \<or> ch = 0)"
  then have ne: "nw \<noteq> 0" "nh \<noteq> 0" by simp_all
  from a have "0 \<le> cw / nw" "0 \<le> ch / nh" by simp_all
  with a have "min (cw / nw) (ch / nh) = 0" by auto
  then show "computeMetrics (Some (cw, ch)) (Some (nw, nh)) prev =
        \<lparr>naturalW = nw, naturalH = nh, drawW = 0, drawH = 0,
         offsetX = cw / 2, offsetY = ch / 2\<rparr>"
    by (simp add: computeMetrics_ready [OF ne])
qed

theorem computeMetrics_not_ready_witness:
  "computeMetrics (Some (300, 0)) (Some (200, 100)) initialMetrics =
     \<lparr>naturalW = 200, naturalH = 100, drawW = 0, drawH = 0, offsetX = 150, offsetY = 0\<rparr>"
  using computeMetrics_not_ready
    [where nw = 200 and nh = 100 and cw = 300 and ch = 0 and prev = initialMetrics]
  by simp

text \<open>
  The claim C4 as stated fails for a container of width zero: the metrics computed
  before are replaced.
\<close>

theorem computeMetrics_zero_container_counterexample:
  "computeMetrics (Some (0, 100)) (Some (200, 100))
     \<lparr>naturalW = 200, naturalH = 100, drawW = 200, drawH = 100, offsetX = 0, offsetY = 0\<rparr>
   = \<lparr>naturalW = 200, naturalH = 100, drawW = 0, drawH = 0, offsetX = 0, offsetY = 50\<rparr>
   \<and> computeMetrics (Some (0, 100)) (Some (200, 100))
     \<lparr>naturalW = 200, naturalH = 100, drawW = 200, drawH = 100, offsetX = 0, offsetY = 0\<rparr>
   \<noteq> \<lparr>naturalW = 200, naturalH = 100, drawW = 200, drawH = 100, offsetX = 0, offsetY = 0\<rparr>"
  by (simp add: computeMetrics_def Let_def)

section \<open>Properties of the layout in double precision\<close>

lemma roundTiesToEven_err: "\<bar>real_of_int (roundTiesToEven y) - y\<bar> \<le> 1 / 2"
  unfolding roundTiesToEven_def Let_def by (auto; linarith)

lemma roundTiesToEven_nonneg: "0 \<le> y \<Longrightarrow> 0 \<le> roundTiesToEven y"
  unfolding roundTiesToEven_def Let_def by auto

lemma fl_eval:
  assumes "2 powi e \<le> \<bar>x\<bar>" and "\<bar>x\<bar> < 2 powi (e + 1)" and "- 1022 \<le> e"
  shows "fl x = real_of_int (roundTiesToEven (x / 2 powi (e - 52))) * 2 powi (e - 52)"
proof -
  have pos: "0 < \<bar>x\<bar>"
    using assms(1) zero_less_power_int [of "2::real" e] by linarith
  have "(2::real) powr real_of_int e = 2 powi e" "(2::real) powr (real_of_int e + 1) = 2 powi (e + 1)"
    using powr_real_of_int' [of "2::real" e] powr_real_of_int' [of "2::real" "e + 1"] by simp_all
  with assms have "\<lfloor>log 2 \<bar>x\<bar>\<rfloor> = e"
    using floor_log_eq_powr_iff [of "\<bar>x\<bar>" 2 e] pos by simp
  with assms(3) pos show ?thesis
    by (auto simp: fl_def Let_def max_def)
qed

lemma fl_nonneg: "0 \<le> x \<Longrightarrow> 0 \<le> fl x"
  by (simp add: fl_def Let_def roundTiesToEven_nonneg)

lemma fl_err: "\<bar>fl x - x\<bar> \<le> \<bar>x\<bar> / 2 ^ 53 + 1 / 2 ^ 1075"
proof (cases "x = 0")
  case True
  then show ?thesis by (simp add: fl_def)
next
  case False
  define e0 where "e0 = \<lfloor>log 2 \<bar>x\<bar>\<rfloor>"
  define e where "e = max e0 (- 1022)"
  define q :: real where "q = 2 powi (e - 52)"
  have qpos: "0 < q" by (simp add: q_def)
  have flx: "fl x = real_of_int (roundTiesToEven (x / q)) * q"
    using False by (simp add: fl_def Let_def q_def e_def e0_def)
  have "fl x - x = (real_of_int (roundTiesToEven (x / q)) - x / q) * q"
    using qpos by (simp add: flx left_diff_distrib)
  then have "\<bar>fl x - x\<bar> = \<bar>real_of_int (roundTiesToEven (x / q)) - x / q\<bar> * q"
    using qpos by (simp add: abs_mult)
  also have "\<dots> \<le> 1 / 2 * q"
    using qpos roundTiesToEven_err [of "x / q"] by (intro mult_right_mono) simp_all
  finally have b: "\<bar>fl x - x\<bar> \<le> q / 2" by simp
  have low: "2 powi e0 \<le> \<bar>x\<bar>"
  proof -
    have "2 powr real_of_int e0 \<le> \<bar>x\<bar>"
      using floor_log_eq_powr_iff [of "\<bar>x\<bar>" 2 e0] False by (simp add: e0_def)
    then show ?thesis using powr_real_of_int' [of "2::real" e0] by simp
  qed
  have q2: "q / 2 = 2 powi e / 2 ^ 53"
    by (simp add: q_def power_int_diff)
  show ?thesis
  proof (cases "- 1022 \<le> e0")
    case True
    then have "e = e0" by (simp add: e_def)
    with q2 low have "q / 2 \<le> \<bar>x\<bar> / 2 ^ 53"
      by (simp add: divide_right_mono)
    with b show ?thesis by simp
  next
    case False
    then have "e = - 1022" by (simp add: e_def)
    then have "q / 2 = 1 / 2 ^ 1075"
      by (simp add: q2 inverse_eq_divide)
    moreover have "0 \<le> \<bar>x\<bar> / 2 ^ 53" by simp
    ultimately show ?thesis using b by linarith
  qed
qed

lemma fl_zero: "fl 0 = 0"
  by (simp add: fl_def)

lemma computeMetrics_double_not_ready:
  "computeMetrics_double None img prev = prev \<and>
   computeMetrics_double el None prev = prev \<and>
   computeMetrics_double el (Some (0, nh)) prev = prev \<and>
   computeMetrics_double el (Some (nw, 0)) prev = prev"
  by (simp add: computeMetrics_double_def split: option.splits prod.splits)

lemma computeMetrics_double_ready:
  "nw \<noteq> 0 \<Longrightarrow> nh \<noteq> 0 \<Longrightarrow>
   computeMetrics_double (Some (cw, ch)) (Some (nw, nh)) prev =
     \<lparr>naturalW = nw, naturalH = nh,
      drawW = fl (nw * min (fl (cw / nw)) (fl (ch / nh))),
      drawH = fl (nh * min (fl (cw / nw)) (fl (ch / nh))),
      offsetX = fl (fl (cw - fl (nw * min (fl (cw / nw)) (fl (ch / nh)))) / 2),
      offsetY = fl (fl (ch - fl (nh * min (fl (cw / nw)) (fl (ch / nh)))) / 2)\<rparr>"
  by (simp add: computeMetrics_double_def Let_def)

text \<open>Where no operation rounds, the two computations agree.\<close>

lemma computeMetrics_double_exact:
  assumes "nw \<noteq> 0" and "nh \<noteq> 0"
    and "fl (cw / nw) = cw / nw" and "fl (ch / nh) = ch / nh"
    and "fl (nw * min (cw / nw) (ch / nh)) = nw * min (cw / nw) (ch / nh)"
    and "fl (nh * min (cw / nw) (ch / nh)) = nh * min (cw / nw) (ch / nh)"
    and "fl (cw - nw * min (cw / nw) (ch / nh)) = cw - nw * min (cw / nw) (ch / nh)"
    and "fl (ch - nh * min (cw / nw) (ch / nh)) = ch - nh * min (cw / nw) (ch / nh)"
    and "fl ((cw - nw * min (cw / nw) (ch / nh)) / 2) = (cw - nw * min (cw / nw) (ch / nh)) / 2"
    and "fl ((ch - nh * min (cw / nw) (ch / nh)) / 2) = (ch - nh * min (cw / nw) (ch / nh)) / 2"
  shows "computeMetrics_double (Some (cw, ch)) (Some (nw, nh)) prev
         = computeMetrics (Some (cw, ch)) (Some (nw, nh)) prev"
  unfolding computeMetrics_double_ready [OF assms(1,2)] computeMetrics_ready [OF assms(1,2)]
  by (simp add: assms)

text \<open>
  So do they on the two runs with a container reading that the sections on the layout
  and on the heatmap use: a container of width zero, and a container 100.5 wide.
\<close>

lemma fl_small_integers:
  "fl 1 = 1" "fl 3 = 3" "fl 50 = 50" "fl 100 = 100" "fl 125 = 125" "fl 250 = 250"
  "fl (1 / 2) = 1 / 2" "fl (201 / 2) = 201 / 2"
  using fl_eval [of 0 1] fl_eval [of 1 3] fl_eval [of 5 50] fl_eval [of 6 100]
    fl_eval [of 6 125] fl_eval [of 7 250] fl_eval [of "- 1" "1 / 2"] fl_eval [of 6 "201 / 2"]
  by (simp_all add: roundTiesToEven_def Let_def)

lemma computeMetrics_double_zero_width:
  "computeMetrics_double (Some (0, 100)) (Some (200, 100)) prev
   = computeMetrics (Some (0, 100)) (Some (200, 100)) prev"
  by (rule computeMetrics_double_exact) (simp_all add: fl_zero fl_small_integers)

lemma computeMetrics_double_half_pixel:
  "computeMetrics_double (Some (201 / 2, 300)) (Some (201, 100)) prev
   = computeMetrics (Some (201 / 2, 300)) (Some (201, 100)) prev"
  by (rule computeMetrics_double_exact) (simp_all add: fl_zero fl_small_integers)

text \<open>The roundings of the run with a container of 29 by 1000 and an image of 7 by 7.\<close>

lemma ex_sx: "fl (29 / 7) = 4664442471205157 / 1125899906842624"
  using fl_eval [of 2 "29 / 7"] by (simp add: roundTiesToEven_def Let_def)

lemma ex_sy: "fl (1000 / 7) = 5026338869833143 / 35184372088832"
  using fl_eval [of 7 "1000 / 7"] by (simp add: roundTiesToEven_def Let_def)

lemma ex_dw: "fl (7 * (4664442471205157 / 1125899906842624)) = 8162774324609025 / 281474976710656"
  using fl_eval [of 4 "7 * (4664442471205157 / 1125899906842624)"]
  by (simp add: roundTiesToEven_def Let_def)

lemma ex_dx: "fl (29 - 8162774324609025 / 281474976710656) = - 1 / 281474976710656"
  using fl_eval [of "- 48" "29 - 8162774324609025 / 281474976710656"]
  by (simp add: roundTiesToEven_def Let_def)

lemma ex_ox: "fl (- 1 / 281474976710656 / 2) = - 1 / 562949953421312"
  using fl_eval [of "- 49" "- 1 / 281474976710656 / 2"]
  by (simp add: roundTiesToEven_def Let_def)

lemma tiny_le: "1 / 2 ^ 932 \<le> X \<Longrightarrow> 1 / 2 ^ 1075 \<le> (X::real) / 2 ^ 100"
  by simp

lemma min_rel:
  fixes a b k x y :: real
  assumes "\<bar>x - a\<bar> \<le> k * a" and "\<bar>y - b\<bar> \<le> k * b" and "0 \<le> a" and "0 \<le> b"
    and "0 \<le> k" and "k \<le> 1"
  shows "\<bar>min x y - min a b\<bar> \<le> k * min a b"
proof (cases "a \<le> b")
  case True
  then have "(1 - k) * a \<le> (1 - k) * b"
    using assms by (intro mult_left_mono) simp_all
  then have "a - k * a \<le> b - k * b" by (simp add: algebra_simps)
  with True assms show ?thesis by (simp add: min_def) linarith
next
  case False
  then have "(1 - k) * b \<le> (1 - k) * a"
    using assms by (intro mult_left_mono) simp_all
  then have "b - k * b \<le> a - k * a" by (simp add: algebra_simps)
  with False assms show ?thesis by (simp add: min_def) linarith
qed

lemma tiny_nonneg: "0 \<le> tiny"
  by (simp add: tiny_def)

lemma tiny_small: "1 / 2 ^ 932 \<le> c \<Longrightarrow> tiny \<le> c / 1267650600228229401496703205376"
  unfolding tiny_def using tiny_le [of c] by simp

lemma fl_above: "fl x - x \<le> \<bar>x\<bar> / 9007199254740992 + tiny"
  unfolding tiny_def using fl_err [of x] by simp

lemma fl_below: "x - fl x \<le> \<bar>x\<bar> / 9007199254740992 + tiny"
  unfolding tiny_def using fl_err [of x] by simp

lemma fl_rel:
  assumes "1 / 2 ^ 932 \<le> x"
  shows "\<bar>fl x - x\<bar> \<le> x / 9007199254740992 + x / 1267650600228229401496703205376"
proof -
  have x0: "0 \<le> x" using assms by (rule order_trans [rotated]) simp
  note e = tiny_small [OF assms] fl_above [of x] fl_below [of x]
  from x0 have ax: "\<bar>x\<bar> = x" by simp
  have "fl x - x \<le> x / 9007199254740992 + x / 1267650600228229401496703205376"
    using e(1,2) unfolding ax by linarith
  moreover have "x - fl x \<le> x / 9007199254740992 + x / 1267650600228229401496703205376"
    using e(1,3) unfolding ax by linarith
  ultimately show ?thesis by linarith
qed

lemma fl_product:
  fixes n sc s :: real
  assumes sc: "\<bar>sc - s\<bar> \<le> s / 9007199254740992 + s / 1267650600228229401496703205376"
    and n: "1 \<le> n" and s: "1 / 2 ^ 932 \<le> s"
  shows "\<bar>fl (n * sc) - n * s\<bar> \<le> 5 * (n * s) / 18014398509481984"
proof -
  define P where "P = n * s"
  define p where "p = n * sc"
  have s0: "0 \<le> s" using s by (rule order_trans [rotated]) simp
  have "s \<le> n * s" using n s0 by (simp add: mult_le_cancel_right1)
  with s have P: "1 / 2 ^ 932 \<le> P" unfolding P_def by linarith
  have P0: "0 \<le> P" using P by (rule order_trans [rotated]) simp
  have "\<bar>n * sc - n * s\<bar> = n * \<bar>sc - s\<bar>"
    using n by (simp add: abs_mult right_diff_distrib [symmetric])
  also have "\<dots> \<le> n * (s / 9007199254740992 + s / 1267650600228229401496703205376)"
    using n sc by (intro mult_left_mono) simp_all
  also have "\<dots> = P / 9007199254740992 + P / 1267650600228229401496703205376"
    by (simp add: P_def algebra_simps)
  finally have "\<bar>p - P\<bar> \<le> P / 9007199254740992 + P / 1267650600228229401496703205376"
    by (simp only: p_def P_def)
  then have p: "p - P \<le> P / 9007199254740992 + P / 1267650600228229401496703205376" "P - p \<le> P / 9007199254740992 + P / 1267650600228229401496703205376"
    by linarith+
  note e = tiny_small [OF P] fl_above [of p] fl_below [of p]
  have "0 \<le> p" using p P0 by linarith
  then have ap: "\<bar>p\<bar> = p" by simp
  have "fl p - P \<le> 5 * P / 18014398509481984"
    using e(1,2) p(1) P0 unfolding ap by linarith
  moreover have "P - fl p \<le> 5 * P / 18014398509481984"
    using e(1,3) p P0 unfolding ap by linarith
  ultimately have "\<bar>fl p - P\<bar> \<le> 5 * P / 18014398509481984"
    by linarith
  then show ?thesis by (simp only: p_def P_def)
qed

lemma fl_offset:
  fixes c P d :: real
  assumes d: "\<bar>d - P\<bar> \<le> 5 * P / 18014398509481984" and P: "0 \<le> P" "P \<le> c" and c: "1 / 2 ^ 932 \<le> c"
  shows "\<bar>fl (fl (c - d) / 2) - (c - P) / 2\<bar> \<le> c / 2251799813685248"
proof -
  define f1 where "f1 = fl (c - d)"
  define f2 where "f2 = fl (f1 / 2)"
  note e = tiny_nonneg tiny_small [OF c] fl_above [of "c - d", folded f1_def]
    fl_below [of "c - d", folded f1_def] fl_above [of "f1 / 2", folded f2_def]
    fl_below [of "f1 / 2", folded f2_def]
  have c0: "0 \<le> c" using P by linarith
  from d have d2: "d - P \<le> 5 * P / 18014398509481984" "P - d \<le> 5 * P / 18014398509481984"
    by linarith+
  have "\<bar>c - d\<bar> \<le> 2 * c"
    using d2 P c0 by linarith
  then have a1: "\<bar>c - d\<bar> / 9007199254740992 \<le> 2 * c / 9007199254740992"
    by (rule divide_right_mono) simp
  have g1: "f1 - (c - d) \<le> 2 * c / 9007199254740992 + tiny" "(c - d) - f1 \<le> 2 * c / 9007199254740992 + tiny"
    using e(3,4) a1 by linarith+
  have "f1 \<le> 3 * c" "- f1 \<le> 3 * c"
    using g1 d2 P c0 e(1,2) by linarith+
  then have "\<bar>f1 / 2\<bar> \<le> 3 * c / 2" by linarith
  then have "\<bar>f1 / 2\<bar> / 9007199254740992 \<le> 3 * c / 2 / 9007199254740992"
    by (rule divide_right_mono) simp
  then have a2: "\<bar>f1 / 2\<bar> / 9007199254740992 \<le> 3 * c / 18014398509481984"
    by simp
  have g2: "f2 - f1 / 2 \<le> 3 * c / 18014398509481984 + tiny" "f1 / 2 - f2 \<le> 3 * c / 18014398509481984 + tiny"
    using e(5,6) a2 by linarith+
  have "f2 - (c - P) / 2 \<le> c / 2251799813685248"
    using g1(1) g2(1) d2(2) P c0 e(1,2) by argo
  moreover have "(c - P) / 2 - f2 \<le> c / 2251799813685248"
    using g1(2) g2(2) d2(1) P c0 e(1,2) by argo
  ultimately have "\<bar>f2 - (c - P) / 2\<bar> \<le> c / 2251799813685248"
    by linarith
  then show ?thesis by (simp only: f1_def f2_def)
qed

lemma min_close:
  fixes a b x y :: real
  assumes "\<bar>x - a\<bar> \<le> a / 9007199254740992 + a / 1267650600228229401496703205376" and "\<bar>y - b\<bar> \<le> b / 9007199254740992 + b / 1267650600228229401496703205376"
  shows "\<bar>min x y - min a b\<bar> \<le> min a b / 9007199254740992 + min a b / 1267650600228229401496703205376"
proof (cases "a \<le> b")
  case True
  then have "min a b = a" by simp
  moreover have "min x y \<le> x" by simp
  moreover have "a - (a / 9007199254740992 + a / 1267650600228229401496703205376) \<le> min x y"
    using assms True by (simp add: min_def) argo
  ultimately show ?thesis using assms(1) by argo
next
  case False
  then have "min a b = b" by simp
  moreover have "min x y \<le> y" by simp
  moreover have "b - (b / 9007199254740992 + b / 1267650600228229401496703205376) \<le> min x y"
    using assms False by (simp add: min_def) argo
  ultimately show ?thesis using assms(2) by argo
qed

lemma double_fit:
  fixes cw ch nw nh :: real
  assumes cw: "1 / 2 ^ 900 \<le> cw" and ch: "1 / 2 ^ 900 \<le> ch"
    and nw: "1 \<le> nw" "nw \<le> 2 ^ 32" and nh: "1 \<le> nh" "nh \<le> 2 ^ 32"
  defines "s \<equiv> min (cw / nw) (ch / nh)"
  defines "sc \<equiv> min (fl (cw / nw)) (fl (ch / nh))"
  shows "\<bar>fl (nw * sc) - nw * s\<bar> \<le> 5 * (nw * s) / 18014398509481984"
    and "\<bar>fl (nh * sc) - nh * s\<bar> \<le> 5 * (nh * s) / 18014398509481984"
    and "\<bar>fl (fl (cw - fl (nw * sc)) / 2) - (cw - nw * s) / 2\<bar> \<le> cw / 2251799813685248"
    and "\<bar>fl (fl (ch - fl (nh * sc)) / 2) - (ch - nh * s) / 2\<bar> \<le> ch / 2251799813685248"
proof -
  have "1 / 2 ^ 900 / 2 ^ 32 \<le> cw / nw"
    using cw nw by (intro frac_le) simp_all
  then have a: "1 / 2 ^ 932 \<le> cw / nw" by simp
  have "1 / 2 ^ 900 / 2 ^ 32 \<le> ch / nh"
    using ch nh by (intro frac_le) simp_all
  then have b: "1 / 2 ^ 932 \<le> ch / nh" by simp
  from a b have s: "1 / 2 ^ 932 \<le> s" by (simp add: s_def)
  have close: "\<bar>sc - s\<bar> \<le> s / 9007199254740992 + s / 1267650600228229401496703205376"
    unfolding sc_def s_def by (intro min_close fl_rel a b)
  show W: "\<bar>fl (nw * sc) - nw * s\<bar> \<le> 5 * (nw * s) / 18014398509481984"
    using close nw(1) s by (rule fl_product)
  show H: "\<bar>fl (nh * sc) - nh * s\<bar> \<le> 5 * (nh * s) / 18014398509481984"
    using close nh(1) s by (rule fl_product)
  have nw0: "0 < nw" and nh0: "0 < nh" using nw nh by simp_all
  have s0: "0 \<le> s" using s by (rule order_trans [rotated]) simp
  have P: "0 \<le> nw * s" "0 \<le> nh * s" using s0 nw0 nh0 by simp_all
  note fit = fit_scale_bounds [OF nw0 nh0, of cw ch, folded s_def]
  have cw': "1 / 2 ^ 932 \<le> cw" using cw by (rule order_trans [rotated]) simp
  have ch': "1 / 2 ^ 932 \<le> ch" using ch by (rule order_trans [rotated]) simp
  show "\<bar>fl (fl (cw - fl (nw * sc)) / 2) - (cw - nw * s) / 2\<bar> \<le> cw / 2251799813685248"
    using W P(1) fit(1) cw' by (rule fl_offset)
  show "\<bar>fl (fl (ch - fl (nh * sc)) / 2) - (ch - nh * s) / 2\<bar> \<le> ch / 2251799813685248"
    using H P(2) fit(2) ch' by (rule fl_offset)
qed

text \<open>
  Claim C1, as the code has it. For container sizes between \<open>2 ^ (- 900)\<close> and
  \<open>2 ^ 900\<close> and natural sizes between 1 and \<open>2 ^ 32\<close>, \<open>computeMetrics\<close> in double
  precision stores a drawn width and height within the relative tolerance \<open>2 ^ (- 51)\<close>
  of \<open>naturalW * scale\<close> and \<open>naturalH * scale\<close> for
  \<open>scale = min (cw / naturalW) (ch / naturalH)\<close>, and offsets within that tolerance of
  the centring ones. So the drawn image exceeds the container by no more than the
  tolerance, reaches it within the tolerance in at least one direction, and the offsets
  are negative by no more than the tolerance.
\<close>

theorem computeMetrics_double_letterbox:
  assumes "1 / 2 ^ 900 \<le> cw" and "cw \<le> 2 ^ 900" and "1 / 2 ^ 900 \<le> ch" and "ch \<le> 2 ^ 900"
    and "1 \<le> nw" and "nw \<le> 2 ^ 32" and "1 \<le> nh" and "nh \<le> 2 ^ 32"
  shows "(let m = computeMetrics_double (Some (cw, ch)) (Some (nw, nh)) prev;
              scale = min (cw / nw) (ch / nh);
              tol = 1 / 2 ^ 51
          in \<bar>drawW m - nw * scale\<bar> \<le> tol * (nw * scale) \<and>
             \<bar>drawH m - nh * scale\<bar> \<le> tol * (nh * scale) \<and>
             \<bar>offsetX m - (cw - nw * scale) / 2\<bar> \<le> tol * cw \<and>
             \<bar>offsetY m - (ch - nh * scale) / 2\<bar> \<le> tol * ch \<and>
             drawW m \<le> cw + tol * cw \<and> drawH m \<le> ch + tol * ch \<and>
             (\<bar>drawW m - cw\<bar> \<le> tol * cw \<or> \<bar>drawH m - ch\<bar> \<le> tol * ch) \<and>
             - (tol * cw) \<le> offsetX m \<and> - (tol * ch) \<le> offsetY m)"
proof -
  define s where "s = min (cw / nw) (ch / nh)"
  define m where "m = computeMetrics_double (Some (cw, ch)) (Some (nw, nh)) prev"
  have nw0: "0 < nw" and nh0: "0 < nh" using assms by simp_all
  then have ne: "nw \<noteq> 0" "nh \<noteq> 0" by simp_all
  note r = computeMetrics_double_ready [OF ne, of cw ch prev, folded m_def]
  note d = double_fit [OF assms(1,3,5,6,7,8), folded s_def]
  have W: "\<bar>drawW m - nw * s\<bar> \<le> 5 * (nw * s) / 18014398509481984"
    and H: "\<bar>drawH m - nh * s\<bar> \<le> 5 * (nh * s) / 18014398509481984"
    and X: "\<bar>offsetX m - (cw - nw * s) / 2\<bar> \<le> cw / 2251799813685248"
    and Y: "\<bar>offsetY m - (ch - nh * s) / 2\<bar> \<le> ch / 2251799813685248"
    using d by (simp_all add: r)
  have "0 \<le> cw" using assms(1) by (rule order_trans [rotated]) simp
  moreover have "0 \<le> ch" using assms(3) by (rule order_trans [rotated]) simp
  ultimately have c0: "0 \<le> cw" "0 \<le> ch" by simp_all
  have s0: "0 \<le> s" using c0 nw0 nh0 by (simp add: s_def)
  define P where "P = nw * s"
  define Q where "Q = nh * s"
  have P0: "0 \<le> P" "0 \<le> Q" using s0 nw0 nh0 by (simp_all add: P_def Q_def)
  note fit = fit_scale_bounds [OF nw0 nh0, of cw ch, folded s_def, folded P_def Q_def]
  note W' = W [folded P_def] and H' = H [folded Q_def]
    and X' = X [folded P_def] and Y' = Y [folded Q_def]
  have 1: "\<bar>drawW m - P\<bar> \<le> P / 2251799813685248" using W' P0(1) by argo
  have 2: "\<bar>drawH m - Q\<bar> \<le> Q / 2251799813685248" using H' P0(2) by argo
  have 5: "drawW m \<le> cw + cw / 2251799813685248" using 1 fit(1) P0(1) by argo
  have 6: "drawH m \<le> ch + ch / 2251799813685248" using 2 fit(2) P0(2) by argo
  have 7: "\<bar>drawW m - cw\<bar> \<le> cw / 2251799813685248 \<or> \<bar>drawH m - ch\<bar> \<le> ch / 2251799813685248"
    using fit(3) 1 2 by auto
  have 8: "- (cw / 2251799813685248) \<le> offsetX m" using X' fit(1) by argo
  have 9: "- (ch / 2251799813685248) \<le> offsetY m" using Y' fit(2) by argo
  from 1 2 X' Y' 5 6 7 8 9 show ?thesis
    unfolding Let_def m_def [symmetric] s_def [symmetric] P_def [symmetric] Q_def [symmetric]
    by simp
qed

theorem computeMetrics_double_letterbox_witness:
  "(1::real) / 2 ^ 900 \<le> 29 \<and> (29::real) \<le> 2 ^ 900 \<and> (1::real) / 2 ^ 900 \<le> 1000 \<and>
   (1000::real) \<le> 2 ^ 900 \<and> (1::real) \<le> 7 \<and> (7::real) \<le> 2 ^ 32 \<and>
   drawW (computeMetrics_double (Some (29, 1000)) (Some (7, 7)) initialMetrics)
     \<le> 29 + 1 / 2 ^ 51 * 29 \<and>
   - (1 / 2 ^ 51 * 29) \<le> offsetX (computeMetrics_double (Some (29, 1000)) (Some (7, 7)) initialMetrics)"
proof -
  have h: "(1::real) / 2 ^ 900 \<le> 29" "(29::real) \<le> 2 ^ 900" "(1::real) / 2 ^ 900 \<le> 1000"
    "(1000::real) \<le> 2 ^ 900" "(1::real) \<le> 7" "(7::real) \<le> 2 ^ 32"
    by simp_all
  from computeMetrics_double_letterbox [OF h(1,2,3,4,5,6,5,6), of initialMetrics] h
  show ?thesis unfolding Let_def by blast
qed

text \<open>
  The claim C1 as stated fails: in a container of 29 by 1000 an image of 7 by 7 is drawn
  \<open>29 + 2 ^ (- 48)\<close> wide, wider than the container, at the offset \<open>- 2 ^ (- 49)\<close>.
\<close>

theorem computeMetrics_double_counterexample:
  "drawW (computeMetrics_double (Some (29, 1000)) (Some (7, 7)) initialMetrics)
     = 29 + 1 / 2 ^ 48 \<and>
   offsetX (computeMetrics_double (Some (29, 1000)) (Some (7, 7)) initialMetrics)
     = - 1 / 2 ^ 49 \<and>
   \<not> drawW (computeMetrics_double (Some (29, 1000)) (Some (7, 7)) initialMetrics) \<le> 29 \<and>
   \<not> 0 \<le> offsetX (computeMetrics_double (Some (29, 1000)) (Some (7, 7)) initialMetrics)"
proof -
  have m: "min (fl (29 / 7)) (fl (1000 / 7)) = 4664442471205157 / 1125899906842624"
    unfolding ex_sx ex_sy by simp
  have d: "drawW (computeMetrics_double (Some (29, 1000)) (Some (7, 7)) initialMetrics)
      = 8162774324609025 / 281474976710656"
    unfolding computeMetrics_double_def Let_def option.case prod.case m ex_dw by simp
  have "offsetX (computeMetrics_double (Some (29, 1000)) (Some (7, 7)) initialMetrics)
      = fl (fl (29 - 8162774324609025 / 281474976710656) / 2)"
    unfolding computeMetrics_double_def Let_def option.case prod.case m ex_dw by simp
  then have x: "offsetX (computeMetrics_double (Some (29, 1000)) (Some (7, 7)) initialMetrics)
      = - 1 / 562949953421312"
    unfolding ex_dx ex_ox .
  show ?thesis unfolding d x by simp
qed

section \<open>Properties of hover and selection\<close>

text \<open>
  Claim C5, as the code has it. A click on a shape makes that shape's id the one
  selected id, whatever was selected before, and is not passed on to the background
  handler; it leaves the hovered id as it was. A click on the background leaves no id
  selected and leaves the hovered id as it was.
\<close>

theorem click_selects:
  "selectedHazardId (click_on_shape rid s) = Some rid \<and>
   selected_set (click_on_shape rid s) = {rid} \<and>
   click_on_shape rid s = setSelectedHazardId (Some rid) s \<and>
   hoveredHazardId (click_on_shape rid s) = hoveredHazardId s \<and>
   selectedHazardId (click_on_background s) = None \<and>
   selected_set (click_on_background s) = {} \<and>
   hoveredHazardId (click_on_background s) = hoveredHazardId s \<and>
   hovered_set (click_on_background s) = hovered_set s"
  by (simp add: selected_set_def hovered_set_def isSelected_def isHovered_def click_on_shape_def
      shape_onClick_def click_on_background_def svg_onClick_def setSelectedHazardId_def)

text \<open>
  The claim C5 as stated fails: a click on the shape that is already selected leaves it
  selected.
\<close>

theorem click_toggle_counterexample:
  "''H1'' \<in> selected_set \<lparr>selectedHazardId = Some ''H1'', hoveredHazardId = None\<rparr> \<and>
   ''H1'' \<in> selected_set
      (click_on_shape ''H1'' \<lparr>selectedHazardId = Some ''H1'', hoveredHazardId = None\<rparr>)"
  by (simp add: selected_set_def isSelected_def click_on_shape_def shape_onClick_def
      setSelectedHazardId_def)

lemma hovered_set_option: "hovered_set s = set_option (hoveredHazardId s)"
  by (auto simp: hovered_set_def isHovered_def)

text \<open>
  Claim C10. At most one id is hovered in any state, and after any sequence of pointer
  events. Entering a shape makes its id the only hovered one; leaving any shape leaves
  no id hovered.
\<close>

theorem hover_single:
  "(isHovered s a \<and> isHovered s b \<longrightarrow> a = b) \<and>
   hovered_set (handle (PointerEnter rid) s) = {rid} \<and>
   hovered_set (handle (PointerLeave rid) s) = {} \<and>
   hoveredHazardId (handle (PointerLeave rid) s) = None \<and>
   card (hovered_set (run evs s)) \<le> 1"
proof -
  have "card (set_option x) \<le> 1" for x :: "string option"
    by (cases x) simp_all
  then have c: "card (hovered_set (run evs s)) \<le> 1"
    by (simp add: hovered_set_option)
  have u: "isHovered s a \<and> isHovered s b \<longrightarrow> a = b"
    by (auto simp: isHovered_def)
  have e: "hovered_set (handle (PointerEnter rid) s) = {rid}"
    by (simp add: hovered_set_option shape_onMouseEnter_def setHoveredHazardId_def)
  have l: "hoveredHazardId (handle (PointerLeave rid) s) = None"
    by (simp add: shape_onMouseLeave_def setHoveredHazardId_def)
  then have "hovered_set (handle (PointerLeave rid) s) = {}"
    by (simp add: hovered_set_option)
  with c u e l show ?thesis by blast
qed

theorem hover_single_witness:
  "isHovered (handle (PointerEnter ''H2'') (handle (PointerEnter ''H1'') initialApp)) ''H2'' \<and>
   \<not> isHovered (handle (PointerEnter ''H2'') (handle (PointerEnter ''H1'') initialApp)) ''H1'' \<and>
   hovered_set (handle (PointerLeave ''H1'')
      (handle (PointerEnter ''H2'') (handle (PointerEnter ''H1'') initialApp))) = {}"
  using hover_single
    [of "handle (PointerEnter ''H2'') (handle (PointerEnter ''H1'') initialApp)" "''H2''" "''H2''"
        "''H1''" "[]"]
  by (simp add: isHovered_def shape_onMouseEnter_def shape_onMouseLeave_def
      setHoveredHazardId_def initialApp_def hovered_set_def)


section \<open>Properties of the mask generator\<close>

lemma pixel_background:
  assumes "i < width" and "j < height"
  shows "pixel \<lparr>mask_width = width, mask_height = height,
                 mask_ops = [FillRect Black 0 0 (real width) (real height)]\<rparr> i j = Some Black"
proof -
  from assms have "real i + 1 / 2 < real width" "real j + 1 / 2 < real height"
    by linarith+
  with assms show ?thesis
    by (simp add: pixel_def in_rect_def)
qed

text \<open>
  Claim C6, evaluated on the code. A rect whose \<open>y\<close> is \<open>null\<close> passes the test
  \<open>!== undefined\<close>; \<open>null * height\<close> is 0, so the whole 4 by 3 mask is painted white
  and is not the all-background mask, while \<open>centerOf\<close>, which tests \<open>!= null\<close>, gives
  no centre for the same region. A poly whose list of points is empty makes
  \<open>region.points[0][0]\<close> throw.
\<close>

theorem createMask_null_field:
  "createMaskFromRegion True
     \<lparr>region_id = ''H1'', region_shape = ''rect'', region_x = Num 0, region_y = Null,
      region_w = Num 1, region_h = Num 1, region_points = None\<rparr> 4 3
   = Inr \<lparr>mask_width = 4, mask_height = 3,
          mask_ops = [FillRect Black 0 0 4 3, FillRect White 0 0 4 3]\<rparr> \<and>
   pixel \<lparr>mask_width = 4, mask_height = 3,
          mask_ops = [FillRect Black 0 0 4 3, FillRect White 0 0 4 3]\<rparr> 2 1 = Some White \<and>
   centerOf
     \<lparr>naturalW = 4, naturalH = 3, drawW = 4, drawH = 3, offsetX = 0, offsetY = 0\<rparr>
     \<lparr>region_id = ''H1'', region_shape = ''rect'', region_x = Num 0, region_y = Null,
      region_w = Num 1, region_h = Num 1, region_points = None\<rparr> = None \<and>
   createMaskFromRegion True
     \<lparr>region_id = ''H1'', region_shape = ''poly'', region_x = Undefined, region_y = Undefined,
      region_w = Undefined, region_h = Undefined, region_points = Some []\<rparr> 4 3
   = Inl TypeError"
  by (simp add: createMaskFromRegion_def Let_def number_of_def js_mul_def fillRect_def
      centerOf_def rect_fields_def pixel_def in_rect_def)

text \<open>A mask with a white pixel is not the all-background mask.\<close>

lemma white_mask_not_background:
  "\<not> all_background \<lparr>mask_width = 4, mask_height = 3,
          mask_ops = [FillRect Black 0 0 4 3, FillRect White 0 0 4 3]\<rparr> 4 3"
proof
  let ?c = "\<lparr>mask_width = 4, mask_height = 3,
          mask_ops = [FillRect Black 0 0 4 3, FillRect White 0 0 4 3]\<rparr>"
  assume "all_background ?c 4 3"
  then have "pixel ?c 2 1 = Some Black" by (simp add: all_background_def)
  moreover have "pixel ?c 2 1 = Some White" by (simp add: pixel_def in_rect_def)
  ultimately show False by simp
qed

text \<open>
  What the function does do: a shape value other than \<open>rect\<close> and \<open>poly\<close>, a rect
  with one of its numbers \<open>undefined\<close> and a poly without \<open>points\<close> give the background
  fill only, and a poly with one or more points never throws.
\<close>

lemma createMask_background_only:
  assumes "region_shape r \<noteq> ''rect'' \<and> region_shape r \<noteq> ''poly'' \<or>
           region_shape r = ''rect'' \<and>
             (region_x r = Undefined \<or> region_y r = Undefined \<or>
              region_w r = Undefined \<or> region_h r = Undefined) \<or>
           region_shape r = ''poly'' \<and> region_points r = None"
  shows "createMaskFromRegion True r width height =
           Inr \<lparr>mask_width = width, mask_height = height,
                mask_ops = [FillRect Black 0 0 (real width) (real height)]\<rparr> \<and>
         all_background
           \<lparr>mask_width = width, mask_height = height,
            mask_ops = [FillRect Black 0 0 (real width) (real height)]\<rparr> width height"
proof
  show "createMaskFromRegion True r width height =
           Inr \<lparr>mask_width = width, mask_height = height,
                mask_ops = [FillRect Black 0 0 (real width) (real height)]\<rparr>"
    using assms by (auto simp: createMaskFromRegion_def Let_def)
  show "all_background
           \<lparr>mask_width = width, mask_height = height,
            mask_ops = [FillRect Black 0 0 (real width) (real height)]\<rparr> width height"
    by (simp add: all_background_def pixel_background)
qed

lemma createMask_poly_returns:
  assumes "region_shape r = ''poly''" and "region_points r = Some ps" and "ps \<noteq> []"
  shows "\<exists>c. createMaskFromRegion True r width height = Inr c"
  using assms by (cases ps) (simp_all add: createMaskFromRegion_def Let_def)

lemma mask_rect_example:
  "pixel (projr (createMaskFromRegion True
      \<lparr>region_id = ''H1'', region_shape = ''rect'', region_x = Num (1 / 4),
       region_y = Num (1 / 4), region_w = Num (1 / 2), region_h = Num (1 / 2),
       region_points = None\<rparr> 400 300)) 200 150 = Some White \<and>
   pixel (projr (createMaskFromRegion True
      \<lparr>region_id = ''H1'', region_shape = ''rect'', region_x = Num (1 / 4),
       region_y = Num (1 / 4), region_w = Num (1 / 2), region_h = Num (1 / 2),
       region_points = None\<rparr> 400 300)) 5 5 = Some Black"
  by (simp add: createMaskFromRegion_def number_of_def js_mul_def fillRect_def Let_def pixel_def
      in_rect_def)

lemma mask_poly_example:
  "pixel (projr (createMaskFromRegion True
      \<lparr>region_id = ''H1'', region_shape = ''poly'', region_x = Undefined,
       region_y = Undefined, region_w = Undefined, region_h = Undefined,
       region_points = Some [[0, 0], [1, 0], [1, 1]]\<rparr> 10 10)) 8 2 = Some White \<and>
   pixel (projr (createMaskFromRegion True
      \<lparr>region_id = ''H1'', region_shape = ''poly'', region_x = Undefined,
       region_y = Undefined, region_w = Undefined, region_h = Undefined,
       region_points = Some [[0, 0], [1, 0], [1, 1]]\<rparr> 10 10)) 2 8 = Some Black"
  by (simp add: createMaskFromRegion_def Let_def pixel_def in_rect_def in_path_def
      crossing_def coord_def js_mul_def)

section \<open>Properties of the heatmap\<close>

text \<open>
  Claim C3, evaluated on the code. A hazard without a severity, over a drawn width of
  200, is painted in the colour of \<open>MEDIUM\<close> but with the radius \<open>0.12 * 200\<close> of the
  \<open>LOW\<close> tier, not \<open>0.18 * 200\<close>; a hazard with a severity outside the table makes
  \<open>rgba\<close> throw.
\<close>

theorem missing_severity_radius:
  "paintHazard
     \<lparr>naturalW = 400, naturalH = 200, drawW = 200, drawH = 100, offsetX = 0, offsetY = 50\<rparr> 1
     [\<lparr>region_id = ''H1'', region_shape = ''rect'', region_x = Num (1 / 4),
       region_y = Num (1 / 4), region_w = Num (1 / 2), region_h = Num (1 / 2),
       region_points = None\<rparr>]
     \<lparr>hazard_id = ''H1'', hazard = ''spill'', risk = None, decide_controls = []\<rparr>
   = Inr (Some \<lparr>blob_cx = 100, blob_cy = 50, blob_r0 = 200 * 0.12 * 0.05,
                blob_radius = 200 * 0.12, blob_rgb = (245, 158, 11)\<rparr>) \<and>
   heatRGB ''MEDIUM'' = Some (245, 158, 11) \<and>
   paintHazard
     \<lparr>naturalW = 400, naturalH = 200, drawW = 200, drawH = 100, offsetX = 0, offsetY = 50\<rparr> 1
     [\<lparr>region_id = ''H1'', region_shape = ''rect'', region_x = Num (1 / 4),
       region_y = Num (1 / 4), region_w = Num (1 / 2), region_h = Num (1 / 2),
       region_points = None\<rparr>]
     \<lparr>hazard_id = ''H1'', hazard = ''spill'',
      risk = Some \<lparr>severity = Some ''CRITICAL'', likelihood = Some ''LOW'', reason = []\<rparr>,
      decide_controls = []\<rparr>
   = Inl TypeError"
  by (simp add: paintHazard_def centerOf_def rect_fields_def heatRGB_def severity_or_medium_def
      risk_severity_def logicalRadius_def js_mul_def inherited_key_def Let_def)















end
